theory Spec2Isabelle
  imports Main "HOL-Library.Word"
begin

section \<open>Data model\<close>

text \<open>
  The grid node of \<^verbatim>\<open>app/main\<close>: the model manager (\<^verbatim>\<open>model_manager.py\<close>) keeps a
  module-level dictionary \<^verbatim>\<open>model_cache\<close> in front of two database tables
  (\<^verbatim>\<open>TorchModel\<close>, \<^verbatim>\<open>TorchTensor\<close>) and registers tensors with the local worker;
  the websocket handler \<^verbatim>\<open>cmd\<close> (\<^verbatim>\<open>events.py\<close>) relays hex-framed commands to the worker.

  Python values are modelled as follows. \<^verbatim>\<open>bytes\<close> is a list of 8-bit words, \<^verbatim>\<open>str\<close> a
  \<^typ>\<open>string\<close>. A deserialized model is either a plain module or a \<^verbatim>\<open>sy.Plan\<close> with its
  \<^verbatim>\<open>state_ids\<close>; the payload of either is opaque. A tensor is an opaque payload, and
  \<^verbatim>\<open>tensor.data\<close> is the tensor itself.
\<close>

type_synonym bytes = "8 word list"
type_synonym obj_id = string
type_synonym tensor = "int list"

datatype model = Module bytes | Plan (state_ids: "obj_id list") bytes

text \<open>
  The exceptions the code meets. Three are subclasses of \<^verbatim>\<open>SQLAlchemyError\<close>:
  \<^verbatim>\<open>IntegrityError\<close> on a second row with an existing primary key,
  \<^verbatim>\<open>UnmappedInstanceError\<close> when \<^verbatim>\<open>session.delete\<close> is handed \<^verbatim>\<open>None\<close>, and
  \<^verbatim>\<open>OperationalError\<close> for a request that the database fails to serve.
  The others are outside that hierarchy: \<^verbatim>\<open>SerdeError\<close> stands for whatever
  \<^verbatim>\<open>sy.serde.deserialize\<close> raises on an argument it cannot decode, \<^verbatim>\<open>AttributeError\<close> is
  Python's for an attribute of \<^verbatim>\<open>None\<close>, \<^verbatim>\<open>KeyError\<close> for a missing dictionary key,
  \<^verbatim>\<open>ValueError\<close> and \<^verbatim>\<open>BinasciiError\<close> (\<^verbatim>\<open>binascii.Error\<close>) come from \<^verbatim>\<open>unhexlify\<close> and
  carry CPython's message, and \<^verbatim>\<open>Raised\<close> is any other \<^verbatim>\<open>Exception\<close> with its description.
  All of them are subclasses of \<^verbatim>\<open>Exception\<close>.
\<close>

datatype exn =
    IntegrityError
  | UnmappedInstanceError
  | OperationalError
  | SerdeError
  | AttributeError
  | KeyError string
  | ValueError string
  | BinasciiError string
  | Raised string

fun is_SQLAlchemyError :: "exn \<Rightarrow> bool" where
  "is_SQLAlchemyError IntegrityError = True"
| "is_SQLAlchemyError UnmappedInstanceError = True"
| "is_SQLAlchemyError OperationalError = True"
| "is_SQLAlchemyError _ = False"

text \<open>A piece of text is a string literal of the source or \<^verbatim>\<open>str(e)\<close> of an exception.\<close>

datatype pystr = Str string | StrOf exn

text \<open>
  The result dictionaries of the model manager: \<^verbatim>\<open>{"success": True, "message": m}\<close>,
  \<^verbatim>\<open>{"success": True, "model": v}\<close>, \<^verbatim>\<open>{"success": True, "models": ids}\<close> and
  \<^verbatim>\<open>{"success": False, "error": t}\<close>. Python passes values untyped, so the value handed
  to \<^verbatim>\<open>save_model_to_cache\<close> and kept in the cache is a \<open>pyval\<close>: bytes, a deserialized
  model, a result dictionary, or \<^verbatim>\<open>None\<close>.
\<close>

datatype pyval = PyNone | Bytes bytes | ModelObj model | Dict response
and response =
    Success_message string
  | Success_model pyval
  | Success_models "string list"
  | Failure pystr

fun success :: "response \<Rightarrow> bool" where
  "success (Failure t) = False"
| "success _ = True"

text \<open>
  The requests made of the database session, in the order they are made: every query and
  every commit of added or deleted rows.
\<close>

datatype db_call =
    Add_TorchModel string
  | Get_TorchModel string
  | All_TorchModel_ids
  | Delete_TorchModel string
  | Add_TorchTensors "obj_id list"
  | Get_TorchTensor obj_id

text \<open>
  The state the model manager works on: the dictionary \<^verbatim>\<open>model_cache\<close>, the two tables,
  the local worker's object dictionary, and the record of database requests. Rows are kept
  in insertion order. \<open>db_fails\<close> is the environment: it tells, of a history of requests,
  whether the database fails to serve the last one; no operation changes it.
\<close>

record node =
  model_cache :: "string \<rightharpoonup> pyval"
  torch_models :: "(string \<times> bytes) list"
  torch_tensors :: "(obj_id \<times> tensor) list"
  objects :: "obj_id \<rightharpoonup> tensor"
  db_calls :: "db_call list"
  db_fails :: "db_call list \<Rightarrow> bool"

text \<open>\<^verbatim>\<open>sy.serde.deserialize\<close> is given by the codec, which decodes bytes or fails.\<close>

type_synonym codec = "bytes \<Rightarrow> model option"

fun deserialize :: "codec \<Rightarrow> pyval \<Rightarrow> exn + pyval" where
  "deserialize D (Bytes b) = (case D b of None \<Rightarrow> Inl SerdeError | Some m \<Rightarrow> Inr (ModelObj m))"
| "deserialize D _ = Inl SerdeError"

fun isinstance_Plan :: "pyval \<Rightarrow> bool" where
  "isinstance_Plan (ModelObj (Plan sids p)) = True"
| "isinstance_Plan _ = False"

section \<open>The database and the local worker\<close>

definition logged :: "db_call \<Rightarrow> node \<Rightarrow> node" where
  "logged c s = s\<lparr>db_calls := db_calls s @ [c]\<rparr>"

text \<open>
  A request is unserved when the database fails on it, given the requests made before;
  a node is reliable when its database serves every request, whatever the history.
\<close>

definition unserved :: "db_call \<Rightarrow> node \<Rightarrow> bool" where
  "unserved c s = db_fails s (db_calls s @ [c])"

definition reliable :: "node \<Rightarrow> bool" where
  "reliable s = (\<forall>h. \<not> db_fails s h)"

text \<open>
  Modelled from the spec: \<^verbatim>\<open>persistence/models.py\<close> (\<^verbatim>\<open>db\<close>, \<^verbatim>\<open>TorchModel\<close>,
  \<^verbatim>\<open>TorchTensor\<close>) is missing. The spec has two durable tables, Models(id unique, blob) and
  Tensors(id unique, payload), a second record with an existing id is rejected, not
  overwritten, and any request may end in a failure of the durable store. A request that
  fails changes no table. \<open>add_TorchModel\<close> is
  \<^verbatim>\<open>db.session.add(TorchModel(..)); db.session.commit()\<close>.
\<close>

definition add_TorchModel :: "string \<Rightarrow> bytes \<Rightarrow> node \<Rightarrow> (exn + unit) \<times> node" where
  "add_TorchModel model_id blob s =
     (let s' = logged (Add_TorchModel model_id) s in
      if unserved (Add_TorchModel model_id) s then (Inl OperationalError, s')
      else
        (case map_of (torch_models s) model_id of
           Some old \<Rightarrow> (Inl IntegrityError, s')
         | None \<Rightarrow> (Inr (), s'\<lparr>torch_models := torch_models s @ [(model_id, blob)]\<rparr>)))"

text \<open>
  Modelled from the spec: \<^verbatim>\<open>db.session.query(TorchModel).get(model_id)\<close>, the row with
  that primary key or \<^verbatim>\<open>None\<close>.
\<close>

definition get_TorchModel :: "string \<Rightarrow> node \<Rightarrow> (exn + bytes option) \<times> node" where
  "get_TorchModel model_id s =
     (let s' = logged (Get_TorchModel model_id) s in
      if unserved (Get_TorchModel model_id) s then (Inl OperationalError, s')
      else (Inr (map_of (torch_models s) model_id), s'))"

text \<open>Modelled from the spec: \<^verbatim>\<open>db.session.query(TorchTensor).get(state_id)\<close>.\<close>

definition get_TorchTensor :: "obj_id \<Rightarrow> node \<Rightarrow> (exn + tensor option) \<times> node" where
  "get_TorchTensor state_id s =
     (let s' = logged (Get_TorchTensor state_id) s in
      if unserved (Get_TorchTensor state_id) s then (Inl OperationalError, s')
      else (Inr (map_of (torch_tensors s) state_id), s'))"

text \<open>Modelled from the spec: \<^verbatim>\<open>db.session.query(TorchModel.id).all()\<close>.\<close>

definition all_TorchModel_ids :: "node \<Rightarrow> (exn + string list) \<times> node" where
  "all_TorchModel_ids s =
     (let s' = logged All_TorchModel_ids s in
      if unserved All_TorchModel_ids s then (Inl OperationalError, s')
      else (Inr (map fst (torch_models s)), s'))"

text \<open>
  Modelled from the spec: \<^verbatim>\<open>db.session.add_all(tensors); db.session.commit()\<close>, one
  transaction: either every row is written or, when an id is already taken or occurs twice,
  none is and the commit raises \<^verbatim>\<open>IntegrityError\<close>.
\<close>

definition add_all_TorchTensor :: "(obj_id \<times> tensor) list \<Rightarrow> node \<Rightarrow> (exn + unit) \<times> node" where
  "add_all_TorchTensor rows s =
     (let s' = logged (Add_TorchTensors (map fst rows)) s in
      if unserved (Add_TorchTensors (map fst rows)) s then (Inl OperationalError, s')
      else if distinct (map fst rows)
              \<and> list_all (\<lambda>k. map_of (torch_tensors s) k = None) (map fst rows)
      then (Inr (), s'\<lparr>torch_tensors := torch_tensors s @ rows\<rparr>)
      else (Inl IntegrityError, s'))"

text \<open>
  Modelled from the spec: \<^verbatim>\<open>db.session.delete(result); db.session.commit()\<close>.
  \<^verbatim>\<open>session.delete(None)\<close> raises \<^verbatim>\<open>UnmappedInstanceError\<close> before the database is
  reached; otherwise the row with the primary key is deleted.
\<close>

definition delete_TorchModel :: "string \<Rightarrow> bytes option \<Rightarrow> node \<Rightarrow> (exn + unit) \<times> node" where
  "delete_TorchModel model_id result s =
     (case result of
        None \<Rightarrow> (Inl UnmappedInstanceError, s)
      | Some row \<Rightarrow>
          (let s' = logged (Delete_TorchModel model_id) s in
           if unserved (Delete_TorchModel model_id) s then (Inl OperationalError, s')
           else (Inr (), s'\<lparr>torch_models := filter (\<lambda>r. fst r \<noteq> model_id) (torch_models s)\<rparr>)))"

text \<open>
  Modelled from the spec: \<^verbatim>\<open>local_worker_utils.py\<close> is missing. \<^verbatim>\<open>get_obj\<close> looks a
  state tensor up in the Object Store by id, \<^verbatim>\<open>register_obj\<close> registers a tensor there
  under an id.
\<close>

definition get_obj :: "obj_id \<Rightarrow> node \<Rightarrow> tensor option" where
  "get_obj state_id s = objects s state_id"

definition register_obj :: "tensor \<Rightarrow> obj_id \<Rightarrow> node \<Rightarrow> node" where
  "register_obj obj state_id s = s\<lparr>objects := (objects s)(state_id \<mapsto> obj)\<rparr>"

section \<open>The model manager\<close>

definition clear_cache :: "node \<Rightarrow> node" where
  "clear_cache s = s\<lparr>model_cache := Map.empty\<rparr>"

definition is_model_in_cache :: "string \<Rightarrow> node \<Rightarrow> bool" where
  "is_model_in_cache model_id s = (model_cache s model_id \<noteq> None)"

definition get_model_from_cache :: "string \<Rightarrow> node \<Rightarrow> pyval" where
  "get_model_from_cache model_id s =
     (case model_cache s model_id of None \<Rightarrow> PyNone | Some v \<Rightarrow> v)"

definition save_model_to_cache ::
  "codec \<Rightarrow> pyval \<Rightarrow> string \<Rightarrow> bool \<Rightarrow> node \<Rightarrow> (exn + unit) \<times> node" where
  "save_model_to_cache D model model_id serialized s =
     (if \<not> is_model_in_cache model_id s then
        (case (if serialized then deserialize D model else Inr model) of
           Inl e \<Rightarrow> (Inl e, s)
         | Inr model' \<Rightarrow> (Inr (), s\<lparr>model_cache := (model_cache s)(model_id \<mapsto> model')\<rparr>))
      else (Inr (), s))"

definition remove_model_from_cache :: "string \<Rightarrow> node \<Rightarrow> node" where
  "remove_model_from_cache model_id s =
     (if is_model_in_cache model_id s
      then s\<lparr>model_cache := (model_cache s)(model_id := None)\<rparr>
      else s)"

text \<open>
  \<^verbatim>\<open>try: ... except SQLAlchemyError as e: return {"success": False, "error": str(e)}\<close>:
  an exception of the SQLAlchemy hierarchy becomes a failure result, any other passes.
\<close>

definition except_SQLAlchemyError :: "(exn + response) \<times> node \<Rightarrow> (exn + response) \<times> node" where
  "except_SQLAlchemyError r =
     (case r of
        (Inl e, s) \<Rightarrow> (if is_SQLAlchemyError e then (Inr (Failure (StrOf e)), s) else (Inl e, s))
      | (Inr v, s) \<Rightarrow> (Inr v, s))"

definition list_models :: "node \<Rightarrow> (exn + response) \<times> node" where
  "list_models s =
     except_SQLAlchemyError
       (case all_TorchModel_ids s of
          (Inl e, s1) \<Rightarrow> (Inl e, s1)
        | (Inr result, s1) \<Rightarrow>
            (let model_ids = result in (Inr (Success_models model_ids), s1)))"

text \<open>\<^verbatim>\<open>_save_model_in_db\<close>; \<^verbatim>\<open>db.session.remove()\<close> only discards the session.\<close>

definition save_model_in_db :: "bytes \<Rightarrow> string \<Rightarrow> node \<Rightarrow> (exn + unit) \<times> node" where
  "save_model_in_db serialized_model model_id s = add_TorchModel model_id serialized_model s"

text \<open>
  The loop of \<^verbatim>\<open>_save_states_in_db\<close>: each state tensor is looked up and its row built.
  A state id with no object in the Object Store ends the loop with an exception that is
  not an \<^verbatim>\<open>SQLAlchemyError\<close>.
\<close>

fun state_rows :: "obj_id list \<Rightarrow> node \<Rightarrow> exn + (obj_id \<times> tensor) list" where
  "state_rows [] s = Inr []"
| "state_rows (state_id # rest) s =
     (case get_obj state_id s of
        None \<Rightarrow> Inl AttributeError
      | Some tensor \<Rightarrow>
          (case state_rows rest s of
             Inl e \<Rightarrow> Inl e
           | Inr tensors \<Rightarrow> Inr ((state_id, tensor) # tensors)))"

fun save_states_in_db :: "pyval \<Rightarrow> node \<Rightarrow> (exn + unit) \<times> node" where
  "save_states_in_db (ModelObj (Plan sids p)) s =
     (case state_rows sids s of
        Inl e \<Rightarrow> (Inl e, s)
      | Inr tensors \<Rightarrow> add_all_TorchTensor tensors s)"
| "save_states_in_db _ s = (Inl AttributeError, s)"

text \<open>\<^verbatim>\<open>_get_model_from_db\<close>.\<close>

definition get_model_from_db :: "string \<Rightarrow> node \<Rightarrow> (exn + bytes option) \<times> node" where
  "get_model_from_db model_id s = get_TorchModel model_id s"

text \<open>
  The loop of \<^verbatim>\<open>_retrieve_state\<close>: \<^verbatim>\<open>result.object\<close> of a missing row is an attribute
  of \<^verbatim>\<open>None\<close>; the tensors registered before it stay registered.
\<close>

fun retrieve_states :: "obj_id list \<Rightarrow> node \<Rightarrow> (exn + unit) \<times> node" where
  "retrieve_states [] s = (Inr (), s)"
| "retrieve_states (state_id # rest) s =
     (case get_TorchTensor state_id s of
        (Inl e, s') \<Rightarrow> (Inl e, s')
      | (Inr None, s') \<Rightarrow> (Inl AttributeError, s')
      | (Inr (Some obj), s') \<Rightarrow> retrieve_states rest (register_obj obj state_id s'))"

fun retrieve_state :: "pyval \<Rightarrow> node \<Rightarrow> (exn + unit) \<times> node" where
  "retrieve_state (ModelObj (Plan sids p)) s = retrieve_states sids s"
| "retrieve_state _ s = (Inl AttributeError, s)"

definition get_model_with_id :: "codec \<Rightarrow> string \<Rightarrow> node \<Rightarrow> (exn + response) \<times> node" where
  "get_model_with_id D model_id s =
     (if is_model_in_cache model_id s
      then (Inr (Success_model (get_model_from_cache model_id s)), s)
      else except_SQLAlchemyError
        (case get_model_from_db model_id s of
           (Inl e, s1) \<Rightarrow> (Inl e, s1)
         | (Inr (Some blob), s1) \<Rightarrow>
             (case deserialize D (Bytes blob) of
                Inl e \<Rightarrow> (Inl e, s1)
              | Inr model \<Rightarrow>
                  (case (if isinstance_Plan model then retrieve_state model s1 else (Inr (), s1)) of
                     (Inl e, s2) \<Rightarrow> (Inl e, s2)
                   | (Inr u, s2) \<Rightarrow>
                       (case save_model_to_cache D model model_id False s2 of
                          (Inl e, s3) \<Rightarrow> (Inl e, s3)
                        | (Inr u, s3) \<Rightarrow> (Inr (Success_model model), s3))))
         | (Inr None, s1) \<Rightarrow> (Inr (Failure (Str ''Model not found'')), s1)))"

text \<open>
  The body of the \<^verbatim>\<open>try\<close> of \<^verbatim>\<open>save_model\<close>, and its handler. In the handler
  \<^verbatim>\<open>db_model\<close> is the result dictionary of \<^verbatim>\<open>get_model_with_id\<close>, which is never empty,
  so \<^verbatim>\<open>if db_model\<close> holds; an exception raised inside the handler leaves \<^verbatim>\<open>save_model\<close>.
\<close>

definition save_model_try :: "codec \<Rightarrow> bytes \<Rightarrow> string \<Rightarrow> node \<Rightarrow> (exn + response) \<times> node" where
  "save_model_try D serialized_model model_id s =
     (case save_model_in_db serialized_model model_id s of
        (Inl e, s1) \<Rightarrow> (Inl e, s1)
      | (Inr u, s1) \<Rightarrow>
          (case deserialize D (Bytes serialized_model) of
             Inl e \<Rightarrow> (Inl e, s1)
           | Inr model \<Rightarrow>
               (case save_model_to_cache D model model_id False s1 of
                  (Inl e, s2) \<Rightarrow> (Inl e, s2)
                | (Inr u, s2) \<Rightarrow>
                    (case (if isinstance_Plan model then save_states_in_db model s2 else (Inr (), s2)) of
                       (Inl e, s3) \<Rightarrow> (Inl e, s3)
                     | (Inr u, s3) \<Rightarrow>
                         (Inr (Success_message (''Model saved with id: '' @ model_id)), s3)))))"

definition save_model_except :: "codec \<Rightarrow> string \<Rightarrow> exn \<Rightarrow> node \<Rightarrow> (exn + response) \<times> node" where
  "save_model_except D model_id e s =
     (if e = IntegrityError then
        (case get_model_with_id D model_id s of
           (Inl e', s1) \<Rightarrow> (Inl e', s1)
         | (Inr db_model, s1) \<Rightarrow>
             (case save_model_to_cache D (Dict db_model) model_id True s1 of
                (Inl e', s2) \<Rightarrow> (Inl e', s2)
              | (Inr u, s2) \<Rightarrow> (Inr (Failure (StrOf e)), s2)))
      else (Inr (Failure (StrOf e)), s))"

definition save_model :: "codec \<Rightarrow> bytes \<Rightarrow> string \<Rightarrow> node \<Rightarrow> (exn + response) \<times> node" where
  "save_model D serialized_model model_id s =
     (if is_model_in_cache model_id s
      then (Inr (Failure (Str (''Model with id: '' @ model_id @ '' already eixsts.''))), s)
      else
        (case save_model_try D serialized_model model_id s of
           (Inl e, s1) \<Rightarrow>
             (if is_SQLAlchemyError e then save_model_except D model_id e s1 else (Inl e, s1))
         | (Inr v, s1) \<Rightarrow> (Inr v, s1)))"

definition delete_model :: "string \<Rightarrow> node \<Rightarrow> (exn + response) \<times> node" where
  "delete_model model_id s =
     except_SQLAlchemyError
       (let s1 = remove_model_from_cache model_id s in
        case get_TorchModel model_id s1 of
          (Inl e, s2) \<Rightarrow> (Inl e, s2)
        | (Inr result, s2) \<Rightarrow>
            (case delete_TorchModel model_id result s2 of
               (Inl e, s3) \<Rightarrow> (Inl e, s3)
             | (Inr u, s3) \<Rightarrow> (Inr (Success_message (''Model Deleted: '' @ model_id)), s3)))"

section \<open>The command relay\<close>

text \<open>
  \<^verbatim>\<open>binascii.unhexlify\<close> on a \<^verbatim>\<open>str\<close>, as CPython does it: the argument must be ASCII
  (\<^verbatim>\<open>ValueError\<close>), then of even length, then every pair is two hexadecimal digits of
  either case (\<^verbatim>\<open>binascii.Error\<close> with the message of either check).
\<close>

definition hex_value :: "char \<Rightarrow> nat option" where
  "hex_value c =
     (let n = (of_char c :: nat) in
      if 48 \<le> n \<and> n \<le> 57 then Some (n - 48)
      else if 97 \<le> n \<and> n \<le> 102 then Some (n - 87)
      else if 65 \<le> n \<and> n \<le> 70 then Some (n - 55)
      else None)"

fun unhex_pairs :: "string \<Rightarrow> exn + bytes" where
  "unhex_pairs (a # b # rest) =
     (case (hex_value a, hex_value b) of
        (Some hi, Some lo) \<Rightarrow>
          (case unhex_pairs rest of
             Inl e \<Rightarrow> Inl e
           | Inr bs \<Rightarrow> Inr (of_nat (16 * hi + lo) # bs))
      | _ \<Rightarrow> Inl (BinasciiError ''Non-hexadecimal digit found''))"
| "unhex_pairs _ = Inr []"

definition unhexlify :: "string \<Rightarrow> exn + bytes" where
  "unhexlify hexstr =
     (if list_ex (\<lambda>c. 128 \<le> (of_char c :: nat)) hexstr
      then Inl (ValueError ''string argument should contain only ASCII characters'')
      else if odd (length hexstr) then Inl (BinasciiError ''Odd-length string'')
      else unhex_pairs hexstr)"

text \<open>\<^verbatim>\<open>binascii.hexlify\<close>: two lower-case digits for each byte.\<close>

definition hex_digit :: "nat \<Rightarrow> char" where
  "hex_digit n = ''0123456789abcdef'' ! (n mod 16)"

fun hexlify :: "bytes \<Rightarrow> string" where
  "hexlify [] = []"
| "hexlify (b # bs) = hex_digit (unat b div 16) # hex_digit (unat b mod 16) # hexlify bs"

text \<open>
  \<^verbatim>\<open>str(b)\<close> of a bytes object that holds hexadecimal digits only: the digits between
  \<^verbatim>\<open>b'\<close> and \<^verbatim>\<open>'\<close>, nothing escaped.
\<close>

definition str_of_hex :: "string \<Rightarrow> string" where
  "str_of_hex h = [CHR ''b'', CHR 0x27] @ h @ [CHR 0x27]"

text \<open>
  What the handler does that can be seen from outside: calls of \<^verbatim>\<open>recover_objects\<close>, of
  \<^verbatim>\<open>worker._recv_msg\<close> with the decoded message, of \<^verbatim>\<open>snapshot\<close>, and of \<^verbatim>\<open>emit\<close>.
\<close>

datatype event =
    Recover_objects
  | Recv_msg bytes
  | Snapshot
  | Emit string pystr

text \<open>
  Modelled from the spec: \<^verbatim>\<open>persistence/utils.py\<close> (\<^verbatim>\<open>recover_objects\<close>, \<^verbatim>\<open>snapshot\<close>) is
  missing, and the worker is PySyft's. The spec has them as collaborators whose calls may
  fail and may change the Object Store; they are parameters here, over any worker state
  \<open>'w\<close>. \<open>current_objects\<close> lists the ids of the objects the worker holds.
\<close>

record 'w collaborators =
  current_objects :: "'w \<Rightarrow> obj_id list"
  recover_objects :: "'w \<Rightarrow> (exn + unit) \<times> 'w"
  recv_msg :: "bytes \<Rightarrow> 'w \<Rightarrow> (exn + bytes) \<times> 'w"
  snapshot :: "'w \<Rightarrow> (exn + unit) \<times> 'w"

record 'w relay =
  worker :: 'w
  events :: "event list"

definition seen :: "event \<Rightarrow> 'w relay \<Rightarrow> 'w relay" where
  "seen ev r = r\<lparr>events := events r @ [ev]\<rparr>"

definition emit :: "string \<Rightarrow> pystr \<Rightarrow> 'w relay \<Rightarrow> 'w relay" where
  "emit name data r = seen (Emit name data) r"

definition call_recover_objects :: "'w collaborators \<Rightarrow> 'w relay \<Rightarrow> (exn + unit) \<times> 'w relay" where
  "call_recover_objects C r =
     (case recover_objects C (worker r) of
        (res, w) \<Rightarrow> (res, (seen Recover_objects r)\<lparr>worker := w\<rparr>))"

definition call_recv_msg :: "'w collaborators \<Rightarrow> bytes \<Rightarrow> 'w relay \<Rightarrow> (exn + bytes) \<times> 'w relay" where
  "call_recv_msg C decoded_message r =
     (case recv_msg C decoded_message (worker r) of
        (res, w) \<Rightarrow> (res, (seen (Recv_msg decoded_message) r)\<lparr>worker := w\<rparr>))"

definition call_snapshot :: "'w collaborators \<Rightarrow> 'w relay \<Rightarrow> (exn + unit) \<times> 'w relay" where
  "call_snapshot C r =
     (case snapshot C (worker r) of
        (res, w) \<Rightarrow> (res, (seen Snapshot r)\<lparr>worker := w\<rparr>))"

text \<open>
  The cold check that opens the \<^verbatim>\<open>try\<close> of \<^verbatim>\<open>cmd\<close>:
  \<^verbatim>\<open>if not len(worker.current_objects()): recover_objects(hook)\<close>.
\<close>

definition cold_check :: "'w collaborators \<Rightarrow> 'w relay \<Rightarrow> (exn + unit) \<times> 'w relay" where
  "cold_check C r =
     (if length (current_objects C (worker r)) = 0
      then call_recover_objects C r else (Inr (), r))"

text \<open>
  The body of the \<^verbatim>\<open>try\<close> of \<^verbatim>\<open>cmd\<close>. The message is a dictionary of strings;
  \<^verbatim>\<open>encoded_message[2:-1]\<close> drops the first two characters and the last one.
\<close>

definition cmd_try ::
  "'w collaborators \<Rightarrow> (string \<rightharpoonup> string) \<Rightarrow> 'w relay \<Rightarrow> (exn + unit) \<times> 'w relay" where
  "cmd_try C message r =
     (case cold_check C r of
        (Inl e, r1) \<Rightarrow> (Inl e, r1)
      | (Inr u, r1) \<Rightarrow>
          (case message ''message'' of
             None \<Rightarrow> (Inl (KeyError ''message''), r1)
           | Some encoded_message \<Rightarrow>
               (case unhexlify (butlast (drop 2 encoded_message)) of
                  Inl e \<Rightarrow> (Inl e, r1)
                | Inr decoded_message \<Rightarrow>
                    (case call_recv_msg C decoded_message r1 of
                       (Inl e, r2) \<Rightarrow> (Inl e, r2)
                     | (Inr decoded_response, r2) \<Rightarrow>
                         (let encoded_response = str_of_hex (hexlify decoded_response) in
                          case call_snapshot C r2 of
                            (Inl e, r3) \<Rightarrow> (Inl e, r3)
                          | (Inr u, r3) \<Rightarrow>
                              (Inr (), emit ''/cmd-response'' (Str encoded_response) r3))))))"

text \<open>
  \<^verbatim>\<open>cmd\<close>: \<^verbatim>\<open>except Exception as e: emit("/cmd-response", str(e))\<close> around the body.
  Every \<open>exn\<close> is a subclass of \<^verbatim>\<open>Exception\<close>, so the handler takes each of them;
  \<^verbatim>\<open>emit\<close> itself only records the response.
\<close>

definition cmd ::
  "'w collaborators \<Rightarrow> (string \<rightharpoonup> string) \<Rightarrow> 'w relay \<Rightarrow> (exn + unit) \<times> 'w relay" where
  "cmd C message r =
     (case cmd_try C message r of
        (Inl e, r') \<Rightarrow> (Inr (), emit ''/cmd-response'' (StrOf e) r')
      | (Inr u, r') \<Rightarrow> (Inr u, r'))"

section \<open>Test fixtures\<close>

text \<open>
  A codec for concrete runs: the first byte tells a plain module (0) from a Plan over the
  state tensors \<^verbatim>\<open>t1\<close> and \<^verbatim>\<open>t2\<close> (1); anything else does not decode.
\<close>

definition test_codec :: codec where
  "test_codec b =
     (case b of
        [] \<Rightarrow> None
      | tag # rest \<Rightarrow>
          if tag = 0 then Some (Module rest)
          else if tag = 1 then Some (Plan [''t1'', ''t2''] rest)
          else None)"

text \<open>The empty node, over a database that serves every request.\<close>

definition empty_node :: node where
  "empty_node =
     \<lparr>model_cache = Map.empty, torch_models = [], torch_tensors = [],
      objects = Map.empty, db_calls = [], db_fails = (\<lambda>h. False)\<rparr>"

text \<open>
  A node whose Object Store holds the state tensors \<^verbatim>\<open>t1\<close> and \<^verbatim>\<open>t2\<close>, and a restart of
  the process: the module-level cache and the worker's objects are gone, the tables stay.
\<close>

definition tensor_node :: node where
  "tensor_node = empty_node\<lparr>objects := [''t1'' \<mapsto> [1], ''t2'' \<mapsto> [2]]\<rparr>"

definition restart :: "node \<Rightarrow> node" where
  "restart s = (clear_cache s)\<lparr>objects := Map.empty\<rparr>"

text \<open>A database that serves the first \<open>n\<close> requests of a node and fails from then on.\<close>

definition failing_after :: "nat \<Rightarrow> node \<Rightarrow> node" where
  "failing_after n s = s\<lparr>db_fails := (\<lambda>h. n < length h)\<rparr>"

text \<open>
  An engine for concrete runs over a worker that is the list of its object ids: recovery
  brings back one object, a command is echoed, a snapshot changes nothing.
\<close>

definition echo_engine :: "obj_id list collaborators" where
  "echo_engine =
     \<lparr>current_objects = (\<lambda>w. w),
      recover_objects = (\<lambda>w. (Inr (), ''recovered'' # w)),
      recv_msg = (\<lambda>msg w. (Inr msg, w)),
      snapshot = (\<lambda>w. (Inr (), w))\<rparr>"

text \<open>
  Engines one of whose collaborators raises: recovery (0), the worker on a command (1) or
  the snapshot (2).
\<close>

definition faulty_engine :: "nat \<Rightarrow> obj_id list collaborators" where
  "faulty_engine n =
     \<lparr>current_objects = (\<lambda>w. w),
      recover_objects =
        (\<lambda>w. if n = 0 then (Inl (Raised ''no snapshot''), w) else (Inr (), ''recovered'' # w)),
      recv_msg = (\<lambda>msg w. if n = 1 then (Inl (Raised ''bad command''), w) else (Inr msg, w)),
      snapshot = (\<lambda>w. if n = 2 then (Inl (Raised ''disk full''), w) else (Inr (), w))\<rparr>"

section \<open>Facts about the model manager\<close>

lemma logged_simps [simp]:
  "model_cache (logged c s) = model_cache s"
  "torch_models (logged c s) = torch_models s"
  "torch_tensors (logged c s) = torch_tensors s"
  "objects (logged c s) = objects s"
  "db_calls (logged c s) = db_calls s @ [c]"
  "db_fails (logged c s) = db_fails s"
  by (simp_all add: logged_def)

lemma register_obj_simps [simp]:
  "model_cache (register_obj obj k s) = model_cache s"
  "torch_models (register_obj obj k s) = torch_models s"
  "torch_tensors (register_obj obj k s) = torch_tensors s"
  "objects (register_obj obj k s) = (objects s)(k \<mapsto> obj)"
  "db_calls (register_obj obj k s) = db_calls s"
  "db_fails (register_obj obj k s) = db_fails s"
  by (simp_all add: register_obj_def)

lemma reliable_served [simp]: "reliable s \<Longrightarrow> \<not> unserved c s"
  by (simp add: reliable_def unserved_def)

lemma reliable_simps [simp]:
  "reliable (logged c s) = reliable s"
  "reliable (register_obj obj k s) = reliable s"
  by (simp_all add: reliable_def)

lemma save_states_in_db_keeps:
  assumes "save_states_in_db v s = (r, s')"
  shows "model_cache s' = model_cache s" and "torch_models s' = torch_models s"
    and "objects s' = objects s"
  using assms
  by (cases "(v, s)" rule: save_states_in_db.cases;
      auto simp: add_all_TorchTensor_def Let_def split: sum.splits if_splits)+

lemma save_states_in_db_cache_update:
  "fst (save_states_in_db v (s\<lparr>model_cache := c\<rparr>)) = fst (save_states_in_db v s)"
proof (cases "(v, s)" rule: save_states_in_db.cases)
  case (1 sids p s0)
  have "state_rows sids (s\<lparr>model_cache := c\<rparr>) = state_rows sids s"
    by (induction sids) (auto simp: get_obj_def split: option.splits)
  with 1 show ?thesis
    by (auto simp: add_all_TorchTensor_def unserved_def Let_def split: sum.splits)
qed auto

lemma save_states_in_db_tensors_on_error:
  "save_states_in_db v s = (Inl e, s') \<Longrightarrow> torch_tensors s' = torch_tensors s"
  by (cases "(v, s)" rule: save_states_in_db.cases)
     (auto simp: add_all_TorchTensor_def Let_def split: sum.splits if_splits)

lemma save_model_in_db_written:
  assumes "save_model_in_db blob i s = (Inr (), s1)"
  shows "map_of (torch_models s1) i = Some blob" and "model_cache s1 = model_cache s"
    and "torch_tensors s1 = torch_tensors s"
  using assms
  by (auto simp: save_model_in_db_def add_TorchModel_def Let_def map_add_Some_iff
      split: if_splits option.splits)

lemma save_model_try_success:
  assumes "save_model_try D blob i s = (Inr r, s')" and "model_cache s i = None"
  shows "\<exists>m. D blob = Some m \<and> model_cache s' i = Some (ModelObj m)
            \<and> r = Success_message (''Model saved with id: '' @ i)"
  using assms
  by (auto simp: save_model_try_def save_model_in_db_def add_TorchModel_def Let_def
       save_model_to_cache_def is_model_in_cache_def
      split: if_splits sum.splits prod.splits option.splits
      dest: save_states_in_db_keeps(1))

lemma save_model_except_fails:
  "save_model_except D i e s = (Inr r, s') \<Longrightarrow> r = Failure (StrOf e)"
  by (auto simp: save_model_except_def split: if_splits prod.splits sum.splits)

lemma save_model_success:
  assumes "save_model D blob i s = (Inr r, s')" and "success r"
  shows "\<exists>m. D blob = Some m \<and> model_cache s' i = Some (ModelObj m)
          \<and> r = Success_message (''Model saved with id: '' @ i)"
  using assms
  by (auto simp: save_model_def is_model_in_cache_def
      split: if_splits sum.splits prod.splits
      dest: save_model_try_success save_model_except_fails)

lemma save_model_cached:
  "model_cache s i = Some v \<Longrightarrow>
   save_model D blob i s =
     (Inr (Failure (Str (''Model with id: '' @ i @ '' already eixsts.''))), s)"
  by (simp add: save_model_def is_model_in_cache_def)

lemma get_model_with_id_cached:
  "model_cache s i = Some v \<Longrightarrow> get_model_with_id D i s = (Inr (Success_model v), s)"
  by (simp add: get_model_with_id_def is_model_in_cache_def get_model_from_cache_def)

lemma retrieve_states_found:
  assumes "\<forall>sid\<in>set sids. map_of (torch_tensors s) sid \<noteq> None" and "reliable s"
  shows "\<exists>s'. retrieve_states sids s = (Inr (), s')
           \<and> model_cache s' = model_cache s
           \<and> torch_models s' = torch_models s
           \<and> torch_tensors s' = torch_tensors s
           \<and> db_calls s' = db_calls s @ map Get_TorchTensor sids
           \<and> objects s' = (\<lambda>k. if k \<in> set sids then map_of (torch_tensors s) k else objects s k)"
  using assms
proof (induction sids arbitrary: s)
  case Nil
  then show ?case by simp
next
  case (Cons sid rest)
  from Cons.prems obtain obj where obj: "map_of (torch_tensors s) sid = Some obj" by auto
  let ?s1 = "register_obj obj sid (logged (Get_TorchTensor sid) s)"
  have "\<forall>k\<in>set rest. map_of (torch_tensors ?s1) k \<noteq> None" and "reliable ?s1"
    using Cons.prems by simp_all
  from Cons.IH [OF this] obtain s' where s':
    "retrieve_states rest ?s1 = (Inr (), s')"
    "model_cache s' = model_cache ?s1" "torch_models s' = torch_models ?s1"
    "torch_tensors s' = torch_tensors ?s1"
    "db_calls s' = db_calls ?s1 @ map Get_TorchTensor rest"
    "objects s' = (\<lambda>k. if k \<in> set rest then map_of (torch_tensors ?s1) k else objects ?s1 k)"
    by blast
  have "retrieve_states (sid # rest) s = (Inr (), s')"
    using obj s'(1) Cons.prems(2) by (simp add: get_TorchTensor_def)
  moreover have "objects s' = (\<lambda>k. if k \<in> set (sid # rest) then map_of (torch_tensors s) k else objects s k)"
    using s'(6) obj by (auto simp: fun_eq_iff)
  ultimately show ?case using s'(2-5) by simp
qed

lemma delete_model_cache:
  "model_cache (snd (delete_model i s)) = (model_cache s)(i := None)"
  by (auto simp: delete_model_def except_SQLAlchemyError_def remove_model_from_cache_def
      is_model_in_cache_def get_TorchModel_def delete_TorchModel_def Let_def fun_eq_iff
      split: option.splits)

lemma delete_model_success:
  assumes "delete_model i s = (Inr r, s1)" and "success r"
  shows "model_cache s1 i = None" and "i \<notin> fst ` set (torch_models s1)"
  using assms
  by (auto simp: delete_model_def except_SQLAlchemyError_def remove_model_from_cache_def
      is_model_in_cache_def get_TorchModel_def delete_TorchModel_def Let_def
      split: option.splits if_splits)

lemma get_model_with_id_absent:
  assumes "model_cache s i = None" and "i \<notin> fst ` set (torch_models s)"
  shows "get_model_with_id D i s =
           (Inr (Failure (if unserved (Get_TorchModel i) s then StrOf OperationalError
                          else Str ''Model not found'')),
            logged (Get_TorchModel i) s)"
proof -
  from assms(2) have "map_of (torch_models s) i = None" by (simp add: map_of_eq_None_iff)
  with assms(1) show ?thesis
    by (simp add: get_model_with_id_def is_model_in_cache_def get_model_from_db_def
        get_TorchModel_def except_SQLAlchemyError_def Let_def)
qed

lemma list_models_eq:
  "list_models s =
     (if unserved All_TorchModel_ids s then Inr (Failure (StrOf OperationalError))
      else Inr (Success_models (map fst (torch_models s))),
      logged All_TorchModel_ids s)"
  by (simp add: list_models_def all_TorchModel_ids_def except_SQLAlchemyError_def Let_def)

text \<open>Deleting and listing touch the database only, and return in every case.\<close>

lemma delete_model_returns: "\<exists>r. fst (delete_model i s) = Inr r"
  by (auto simp: delete_model_def except_SQLAlchemyError_def get_TorchModel_def
      delete_TorchModel_def Let_def split: option.splits)

lemma list_models_returns: "\<exists>r. fst (list_models s) = Inr r"
  by (simp add: list_models_eq)

section \<open>Facts about the command relay\<close>

lemma seen_simps [simp]:
  "events (seen ev r) = events r @ [ev]"
  "worker (seen ev r) = worker r"
  by (simp_all add: seen_def)

lemma cold_check_events:
  "cold_check C r = (res, r1) \<Longrightarrow>
   events r1 = events r @ (if current_objects C (worker r) = [] then [Recover_objects] else [])"
  by (auto simp: cold_check_def call_recover_objects_def split: prod.splits if_splits)

lemma call_recv_msg_events:
  "call_recv_msg C bs r = (res, r1) \<Longrightarrow> events r1 = events r @ [Recv_msg bs]"
  by (auto simp: call_recv_msg_def split: prod.splits)

lemma call_snapshot_events:
  "call_snapshot C r = (res, r1) \<Longrightarrow> events r1 = events r @ [Snapshot]"
  by (auto simp: call_snapshot_def split: prod.splits)

lemma cmd_raised:
  "cmd_try C message r = (Inl e, r1) \<Longrightarrow>
   cmd C message r = (Inr (), emit ''/cmd-response'' (StrOf e) r1)"
  by (simp add: cmd_def)

lemma cmd_try_cold_check_raises:
  "cold_check C r = (Inl e, r1) \<Longrightarrow> cmd_try C message r = (Inl e, r1)"
  by (simp add: cmd_try_def)

lemma cmd_try_no_message:
  "cold_check C r = (Inr (), r1) \<Longrightarrow> message ''message'' = None \<Longrightarrow>
   cmd_try C message r = (Inl (KeyError ''message''), r1)"
  by (simp add: cmd_try_def)

lemma cmd_try_decode_raises:
  "cold_check C r = (Inr (), r1) \<Longrightarrow> message ''message'' = Some m \<Longrightarrow>
   unhexlify (butlast (drop 2 m)) = Inl e \<Longrightarrow>
   cmd_try C message r = (Inl e, r1)"
  by (simp add: cmd_try_def)

lemma cmd_try_recv_msg_raises:
  "cold_check C r = (Inr (), r1) \<Longrightarrow> message ''message'' = Some m \<Longrightarrow>
   unhexlify (butlast (drop 2 m)) = Inr bs \<Longrightarrow> call_recv_msg C bs r1 = (Inl e, r2) \<Longrightarrow>
   cmd_try C message r = (Inl e, r2)"
  by (simp add: cmd_try_def)

lemma cmd_try_snapshot_raises:
  "cold_check C r = (Inr (), r1) \<Longrightarrow> message ''message'' = Some m \<Longrightarrow>
   unhexlify (butlast (drop 2 m)) = Inr bs \<Longrightarrow> call_recv_msg C bs r1 = (Inr resp, r2) \<Longrightarrow>
   call_snapshot C r2 = (Inl e, r3) \<Longrightarrow>
   cmd_try C message r = (Inl e, r3)"
  by (simp add: cmd_try_def)

lemma cmd_try_responds:
  "cold_check C r = (Inr (), r1) \<Longrightarrow> message ''message'' = Some m \<Longrightarrow>
   unhexlify (butlast (drop 2 m)) = Inr bs \<Longrightarrow> call_recv_msg C bs r1 = (Inr resp, r2) \<Longrightarrow>
   call_snapshot C r2 = (Inr (), r3) \<Longrightarrow>
   cmd_try C message r = (Inr (), emit ''/cmd-response'' (Str (str_of_hex (hexlify resp))) r3)"
  by (simp add: cmd_try_def)

text \<open>Decoding undoes encoding, and the slice undoes the framing.\<close>

lemma unhex_pairs_length:
  "unhex_pairs s = Inr bs \<Longrightarrow> length bs = length s div 2"
  by (induction s arbitrary: bs rule: unhex_pairs.induct)
     (auto split: option.splits sum.splits)

lemma unhexlify_length:
  assumes "unhexlify s = Inr bs"
  shows "even (length s)" and "length bs = length s div 2"
  using assms by (auto simp: unhexlify_def unhex_pairs_length split: if_splits)

lemma slice_of_framed: "butlast (drop 2 (str_of_hex h)) = h"
  by (simp add: str_of_hex_def butlast_append)

lemma unframed_not_decoded:
  assumes "m \<noteq> []" and "unhexlify m = Inr bs"
  shows "unhexlify (butlast (drop 2 m)) \<noteq> Inr bs"
proof
  assume eq: "unhexlify (butlast (drop 2 m)) = Inr bs"
  from unhexlify_length [OF assms(2)] have ev: "even (length m)" and len: "length bs = length m div 2"
    by simp_all
  from unhexlify_length [OF eq] have "length bs = length (butlast (drop 2 m)) div 2" by simp
  with len have "length m div 2 = (length m - 3) div 2" by simp
  moreover from assms(1) ev have "2 \<le> length m" by (cases m) (auto simp: Suc_le_eq)
  ultimately show False by presburger
qed

lemma below_16:
  "n < 16 \<Longrightarrow> n \<in> {0, 1, 2, 3, 4, 5, 6, 7, 8, 9, 10, 11, 12, 13, 14, 15::nat}"
  by (simp only: insert_iff empty_iff) arith

lemma hex_value_hex_digit: "n < 16 \<Longrightarrow> hex_value (hex_digit n) = Some n"
  by (drule below_16) (auto simp: hex_value_def hex_digit_def)

lemma hex_digit_ascii: "n < 16 \<Longrightarrow> (of_char (hex_digit n) :: nat) < 128"
  by (drule below_16) (auto simp: hex_digit_def)

lemma nibbles_below_16: "unat (b :: 8 word) div 16 < 16" "unat b mod 16 < 16"
proof -
  have "unat b < 256" using unsigned_less [of b, where ?'a = nat] by simp
  then show "unat b div 16 < 16" by simp
qed simp

lemma byte_of_digits: "(of_nat (16 * (unat b div 16) + unat b mod 16) :: 8 word) = b"
  by simp

lemma unhex_pairs_hexlify: "unhex_pairs (hexlify bs) = Inr bs"
  by (induction bs) (simp_all add: hex_value_hex_digit nibbles_below_16)

lemma hexlify_ascii: "\<not> list_ex (\<lambda>c. 128 \<le> (of_char c :: nat)) (hexlify bs)"
  by (induction bs) (simp_all add: hex_digit_ascii nibbles_below_16 not_le)

lemma length_hexlify: "length (hexlify bs) = 2 * length bs"
  by (induction bs) simp_all

lemma unhexlify_hexlify: "unhexlify (hexlify bs) = Inr bs"
  by (simp add: unhexlify_def hexlify_ascii length_hexlify unhex_pairs_hexlify)

section \<open>Concrete runs\<close>

text \<open>The definitions that a run on a concrete node unfolds.\<close>

lemmas run_defs =
  save_model_def save_model_try_def save_model_except_def save_model_in_db_def
  get_model_with_id_def get_model_from_db_def get_model_from_cache_def
  save_model_to_cache_def remove_model_from_cache_def is_model_in_cache_def
  delete_model_def list_models_def except_SQLAlchemyError_def clear_cache_def
  add_TorchModel_def get_TorchModel_def get_TorchTensor_def add_all_TorchTensor_def
  all_TorchModel_ids_def delete_TorchModel_def get_obj_def register_obj_def logged_def
  unserved_def reliable_def test_codec_def empty_node_def tensor_node_def restart_def
  failing_after_def

text \<open>
  Runs on the fixtures, evaluated: the first save of a module on the empty node; the save
  of a Plan whose state tensors are in the Object Store; a delete after a save; the save of
  a Plan one of whose state ids already has a tensor row, and the same save when the
  database fails after the model row is written; a save after a restart; the save of bytes
  that do not deserialize; the save of a Plan whose state tensors are not in the Object
  Store, and of one that misses a single state tensor; a save after a restart when the
  database serves the write and fails on the read that follows.
\<close>

lemma save_model_empty_node:
  "save_model test_codec [0, 7] ''m1'' empty_node =
     (Inr (Success_message ''Model saved with id: m1''),
      \<lparr>model_cache = [''m1'' \<mapsto> ModelObj (Module [7])], torch_models = [(''m1'', [0, 7])],
       torch_tensors = [], objects = Map.empty, db_calls = [Add_TorchModel ''m1''],
       db_fails = (\<lambda>h. False)\<rparr>)"
  by (simp add: run_defs)

lemma save_plan_tensor_node:
  "save_model test_codec [1, 7] ''m1'' tensor_node =
     (Inr (Success_message ''Model saved with id: m1''),
      \<lparr>model_cache = [''m1'' \<mapsto> ModelObj (Plan [''t1'', ''t2''] [7])],
       torch_models = [(''m1'', [1, 7])],
       torch_tensors = [(''t1'', [1]), (''t2'', [2])],
       objects = [''t1'' \<mapsto> [1], ''t2'' \<mapsto> [2]],
       db_calls = [Add_TorchModel ''m1'', Add_TorchTensors [''t1'', ''t2'']],
       db_fails = (\<lambda>h. False)\<rparr>)"
  by (simp add: run_defs)

lemma delete_after_save:
  "delete_model ''m1'' (snd (save_model test_codec [0, 7] ''m1'' empty_node)) =
     (Inr (Success_message ''Model Deleted: m1''),
      \<lparr>model_cache = Map.empty, torch_models = [], torch_tensors = [], objects = Map.empty,
       db_calls = [Add_TorchModel ''m1'', Get_TorchModel ''m1'', Delete_TorchModel ''m1''],
       db_fails = (\<lambda>h. False)\<rparr>)"
  by (simp add: save_model_empty_node) (simp add: run_defs)

lemma save_plan_taken_tensor:
  "save_model test_codec [1, 7] ''m1'' (tensor_node\<lparr>torch_tensors := [(''t2'', [5])]\<rparr>) =
     (Inr (Failure (StrOf IntegrityError)),
      \<lparr>model_cache = [''m1'' \<mapsto> ModelObj (Plan [''t1'', ''t2''] [7])],
       torch_models = [(''m1'', [1, 7])],
       torch_tensors = [(''t2'', [5])],
       objects = [''t1'' \<mapsto> [1], ''t2'' \<mapsto> [2]],
       db_calls = [Add_TorchModel ''m1'', Add_TorchTensors [''t1'', ''t2'']],
       db_fails = (\<lambda>h. False)\<rparr>)"
  by (simp add: run_defs)

lemma save_plan_outage:
  "save_model test_codec [1, 7] ''m1'' (failing_after 1 tensor_node) =
     (Inr (Failure (StrOf OperationalError)),
      \<lparr>model_cache = [''m1'' \<mapsto> ModelObj (Plan [''t1'', ''t2''] [7])],
       torch_models = [(''m1'', [1, 7])],
       torch_tensors = [],
       objects = [''t1'' \<mapsto> [1], ''t2'' \<mapsto> [2]],
       db_calls = [Add_TorchModel ''m1'', Add_TorchTensors [''t1'', ''t2'']],
       db_fails = (\<lambda>h. 1 < length h)\<rparr>)"
  by (simp add: run_defs)

lemma save_after_restart:
  "save_model test_codec [1, 9] ''m1'' (restart (snd (save_model test_codec [0, 7] ''m1'' empty_node))) =
     (Inr (Failure (StrOf IntegrityError)),
      \<lparr>model_cache = [''m1'' \<mapsto> ModelObj (Module [7])],
       torch_models = [(''m1'', [0, 7])], torch_tensors = [], objects = Map.empty,
       db_calls = [Add_TorchModel ''m1'', Add_TorchModel ''m1'', Get_TorchModel ''m1''],
       db_fails = (\<lambda>h. False)\<rparr>)"
  by (simp add: save_model_empty_node) (simp add: run_defs)

lemma save_bad_blob:
  "save_model test_codec [9] ''m1'' empty_node =
     (Inl SerdeError,
      \<lparr>model_cache = Map.empty, torch_models = [(''m1'', [9])], torch_tensors = [],
       objects = Map.empty, db_calls = [Add_TorchModel ''m1''], db_fails = (\<lambda>h. False)\<rparr>)"
  by (simp add: run_defs)

lemma save_plan_without_objects:
  "save_model test_codec [1, 7] ''m2'' empty_node =
     (Inl AttributeError,
      \<lparr>model_cache = [''m2'' \<mapsto> ModelObj (Plan [''t1'', ''t2''] [7])],
       torch_models = [(''m2'', [1, 7])], torch_tensors = [],
       objects = Map.empty, db_calls = [Add_TorchModel ''m2''], db_fails = (\<lambda>h. False)\<rparr>)"
  by (simp add: run_defs)

lemma save_plan_missing_tensor:
  "save_model test_codec [1, 7] ''m1'' (tensor_node\<lparr>objects := [''t1'' \<mapsto> [1]]\<rparr>) =
     (Inl AttributeError,
      \<lparr>model_cache = [''m1'' \<mapsto> ModelObj (Plan [''t1'', ''t2''] [7])],
       torch_models = [(''m1'', [1, 7])], torch_tensors = [],
       objects = [''t1'' \<mapsto> [1]], db_calls = [Add_TorchModel ''m1''],
       db_fails = (\<lambda>h. False)\<rparr>)"
  by (simp add: run_defs)

lemma save_read_outage:
  "save_model test_codec [1, 9] ''m1''
     (failing_after 2 (restart (snd (save_model test_codec [0, 7] ''m1'' empty_node)))) =
     (Inl SerdeError,
      \<lparr>model_cache = Map.empty,
       torch_models = [(''m1'', [0, 7])], torch_tensors = [], objects = Map.empty,
       db_calls = [Add_TorchModel ''m1'', Add_TorchModel ''m1'', Get_TorchModel ''m1''],
       db_fails = (\<lambda>h. 2 < length h)\<rparr>)"
  by (simp add: save_model_empty_node) (simp add: run_defs)

text \<open>
  Runs of the relay, evaluated: a framed command on a cold worker; an unframed one and one
  that is not hexadecimal on a warm worker; a command when recovery, the worker or the
  snapshot raises; the empty message.
\<close>

lemmas relay_defs =
  cmd_def cmd_try_def cold_check_def call_recover_objects_def call_recv_msg_def
  call_snapshot_def emit_def seen_def unhexlify_def hex_value_def hex_digit_def
  str_of_hex_def echo_engine_def faulty_engine_def

lemma cmd_framed_cold:
  "cmd echo_engine [''message'' \<mapsto> str_of_hex ''6869''] \<lparr>worker = [], events = []\<rparr> =
     (Inr (),
      \<lparr>worker = [''recovered''],
       events = [Recover_objects, Recv_msg [0x68, 0x69], Snapshot,
                 Emit ''/cmd-response'' (Str (str_of_hex ''6869''))]\<rparr>)"
  by (simp add: relay_defs)

lemma cmd_unframed_warm:
  "cmd echo_engine [''message'' \<mapsto> ''6869''] \<lparr>worker = [''a''], events = []\<rparr> =
     (Inr (),
      \<lparr>worker = [''a''],
       events = [Emit ''/cmd-response'' (StrOf (BinasciiError ''Odd-length string''))]\<rparr>)"
  by (simp add: relay_defs)

lemma cmd_not_hex_warm:
  "cmd echo_engine [''message'' \<mapsto> str_of_hex ''zz''] \<lparr>worker = [''a''], events = []\<rparr> =
     (Inr (),
      \<lparr>worker = [''a''],
       events = [Emit ''/cmd-response'' (StrOf (BinasciiError ''Non-hexadecimal digit found''))]\<rparr>)"
  by (simp add: relay_defs)

lemma cmd_recovery_raises:
  "cmd (faulty_engine 0) [''message'' \<mapsto> str_of_hex ''6869''] \<lparr>worker = [], events = []\<rparr> =
     (Inr (),
      \<lparr>worker = [],
       events = [Recover_objects, Emit ''/cmd-response'' (StrOf (Raised ''no snapshot''))]\<rparr>)"
  by (simp add: relay_defs)

lemma cmd_worker_raises:
  "cmd (faulty_engine 1) [''message'' \<mapsto> str_of_hex ''6869''] \<lparr>worker = [''a''], events = []\<rparr> =
     (Inr (),
      \<lparr>worker = [''a''],
       events = [Recv_msg [0x68, 0x69], Emit ''/cmd-response'' (StrOf (Raised ''bad command''))]\<rparr>)"
  by (simp add: relay_defs)

lemma cmd_snapshot_raises:
  "cmd (faulty_engine 2) [''message'' \<mapsto> str_of_hex ''6869''] \<lparr>worker = [''a''], events = []\<rparr> =
     (Inr (),
      \<lparr>worker = [''a''],
       events = [Recv_msg [0x68, 0x69], Snapshot,
                 Emit ''/cmd-response'' (StrOf (Raised ''disk full''))]\<rparr>)"
  by (simp add: relay_defs)

lemma cmd_empty_unframed:
  "cmd echo_engine [''message'' \<mapsto> ''''] \<lparr>worker = [''a''], events = []\<rparr> =
     (Inr (),
      \<lparr>worker = [''a''],
       events = [Recv_msg [], Snapshot, Emit ''/cmd-response'' (Str [CHR ''b'', CHR 0x27, CHR 0x27])]\<rparr>)"
  by (simp add: relay_defs)

section \<open>Saving under an id that is already cached\<close>

text \<open>
  Claim C1. If \<open>save_model\<close> has returned a success result for an id, a second call with
  the same id, whatever its bytes, returns the failure result with the message
  \<^verbatim>\<open>Model with id: <id> already eixsts.\<close> and leaves the whole state as it was, so no
  request is made of the database; \<open>get_model_with_id\<close> after both calls returns the model
  that the bytes of the first call deserialize to.
\<close>

theorem save_model_twice:
  assumes "save_model D blob model_id s = (Inr r, s1)" and "success r"
  shows "save_model D blob2 model_id s1 =
           (Inr (Failure (Str (''Model with id: '' @ model_id @ '' already eixsts.''))), s1)
       \<and> (\<exists>m. deserialize D (Bytes blob) = Inr m
              \<and> get_model_with_id D model_id (snd (save_model D blob2 model_id s1)) =
                  (Inr (Success_model m), s1))"
proof -
  from save_model_success [OF assms] obtain m where
    m: "D blob = Some m" "model_cache s1 model_id = Some (ModelObj m)" by blast
  have again: "save_model D blob2 model_id s1 =
      (Inr (Failure (Str (''Model with id: '' @ model_id @ '' already eixsts.''))), s1)"
    using m(2) by (rule save_model_cached)
  have "get_model_with_id D model_id s1 = (Inr (Success_model (ModelObj m)), s1)"
    using m(2) by (rule get_model_with_id_cached)
  with again m(1) show ?thesis by simp
qed

theorem save_model_twice_witness:
  "fst (save_model test_codec [0, 7] ''m1'' empty_node) =
     Inr (Success_message ''Model saved with id: m1'')
   \<and> fst (save_model test_codec [1, 9] ''m1'' (snd (save_model test_codec [0, 7] ''m1'' empty_node))) =
     Inr (Failure (Str ''Model with id: m1 already eixsts.''))
   \<and> fst (get_model_with_id test_codec ''m1''
        (snd (save_model test_codec [1, 9] ''m1'' (snd (save_model test_codec [0, 7] ''m1'' empty_node))))) =
     Inr (Success_model (ModelObj (Module [7])))"
  using save_model_twice [OF save_model_empty_node, of "[1, 9]"]
  by (auto simp: test_codec_def save_model_empty_node)

section \<open>Saving a model that is stored but not cached\<close>

text \<open>
  Claim C2 against the code. Three ids are stored and not cached, and \<open>save_model\<close> for
  each meets the uniqueness violation and then raises out of its handler instead of
  returning a failure result, leaving the id out of the cache. The row of \<^verbatim>\<open>m1\<close> holds
  bytes that do not deserialize, and the row of \<^verbatim>\<open>m2\<close> holds a Plan whose state tensors
  have no rows: both rows were left behind by a \<open>save_model\<close> that raised after its model
  row was written, and the read of the handler raises on them. The third row is sound, but
  the database fails on the read of the handler: \<open>get_model_with_id\<close> returns its failure
  dictionary, the handler hands that dictionary to \<open>save_model_to_cache\<close> as if it were
  the serialized model, and deserializing it raises.
\<close>

theorem save_model_repair_raises:
  "map_of (torch_models (snd (save_model test_codec [9] ''m1'' empty_node))) ''m1'' = Some [9]
   \<and> \<not> is_model_in_cache ''m1'' (snd (save_model test_codec [9] ''m1'' empty_node))
   \<and> fst (save_model test_codec [0, 7] ''m1'' (snd (save_model test_codec [9] ''m1'' empty_node))) =
       Inl SerdeError
   \<and> \<not> is_model_in_cache ''m1''
       (snd (save_model test_codec [0, 7] ''m1'' (snd (save_model test_codec [9] ''m1'' empty_node))))
   \<and> map_of (torch_models (restart (snd (save_model test_codec [1, 7] ''m2'' empty_node)))) ''m2'' =
       Some [1, 7]
   \<and> \<not> is_model_in_cache ''m2'' (restart (snd (save_model test_codec [1, 7] ''m2'' empty_node)))
   \<and> fst (save_model test_codec [1, 7] ''m2''
        (restart (snd (save_model test_codec [1, 7] ''m2'' empty_node)))) = Inl AttributeError
   \<and> \<not> is_model_in_cache ''m2''
       (snd (save_model test_codec [1, 7] ''m2''
          (restart (snd (save_model test_codec [1, 7] ''m2'' empty_node)))))
   \<and> map_of (torch_models
         (failing_after 2 (restart (snd (save_model test_codec [0, 7] ''m1'' empty_node))))) ''m1'' =
       Some [0, 7]
   \<and> \<not> is_model_in_cache ''m1''
       (failing_after 2 (restart (snd (save_model test_codec [0, 7] ''m1'' empty_node))))
   \<and> fst (save_model test_codec [1, 9] ''m1''
        (failing_after 2 (restart (snd (save_model test_codec [0, 7] ''m1'' empty_node))))) =
       Inl SerdeError
   \<and> \<not> is_model_in_cache ''m1''
       (snd (save_model test_codec [1, 9] ''m1''
          (failing_after 2 (restart (snd (save_model test_codec [0, 7] ''m1'' empty_node))))))"
  by (simp add: save_bad_blob save_plan_without_objects save_read_outage)
     (simp add: run_defs)

text \<open>
  Where the handler's read succeeds, the repair is done. Let the id miss the cache and have
  a row whose bytes deserialize to a model, and, when that model is a Plan, let every state
  id have a row in the tensor table; let the database serve its requests. Then
  \<open>save_model\<close> for the id, whatever its bytes, returns the failure result with
  \<^verbatim>\<open>str\<close> of the \<^verbatim>\<open>IntegrityError\<close>, the cache holds the model deserialized from the stored
  row, and the model table is unchanged.
\<close>

lemma save_model_repairs_cache:
  assumes "\<not> is_model_in_cache model_id s"
    and "map_of (torch_models s) model_id = Some stored"
    and "D stored = Some m"
    and "\<forall>sid\<in>set (case m of Plan sids p \<Rightarrow> sids | Module p \<Rightarrow> []). map_of (torch_tensors s) sid \<noteq> None"
    and "reliable s"
  shows "\<exists>s'. save_model D blob model_id s = (Inr (Failure (StrOf IntegrityError)), s')
           \<and> model_cache s' model_id = Some (ModelObj m)
           \<and> torch_models s' = torch_models s"
proof -
  let ?s1 = "logged (Add_TorchModel model_id) s"
  have body: "save_model_try D blob model_id s = (Inl IntegrityError, ?s1)"
    using assms(2,5)
    by (simp add: save_model_try_def save_model_in_db_def add_TorchModel_def Let_def)
  have miss: "\<not> is_model_in_cache model_id ?s1"
    using assms(1) by (simp add: is_model_in_cache_def)
  have "\<exists>s2. get_model_with_id D model_id ?s1 = (Inr (Success_model (ModelObj m)), s2)
          \<and> model_cache s2 model_id = Some (ModelObj m) \<and> torch_models s2 = torch_models s"
  proof (cases m)
    case (Module p)
    then show ?thesis
      using miss assms(2,3,5)
      by (simp add: get_model_with_id_def get_model_from_db_def get_TorchModel_def
          save_model_to_cache_def is_model_in_cache_def except_SQLAlchemyError_def)
  next
    case (Plan sids p)
    let ?s1' = "logged (Get_TorchModel model_id) ?s1"
    have "\<forall>sid\<in>set sids. map_of (torch_tensors ?s1') sid \<noteq> None" and "reliable ?s1'"
      using assms(4,5) Plan by simp_all
    from retrieve_states_found [OF this] obtain s2 where s2:
      "retrieve_states sids ?s1' = (Inr (), s2)"
      "model_cache s2 = model_cache ?s1'" "torch_models s2 = torch_models ?s1'"
      by blast
    then show ?thesis
      using miss assms(2,3,5) Plan
      by (simp add: get_model_with_id_def get_model_from_db_def get_TorchModel_def
          save_model_to_cache_def is_model_in_cache_def except_SQLAlchemyError_def)
  qed
  then obtain s2 where s2:
    "get_model_with_id D model_id ?s1 = (Inr (Success_model (ModelObj m)), s2)"
    "model_cache s2 model_id = Some (ModelObj m)" "torch_models s2 = torch_models s"
    by blast
  have "save_model_except D model_id IntegrityError ?s1 = (Inr (Failure (StrOf IntegrityError)), s2)"
    using s2(1,2) by (simp add: save_model_except_def save_model_to_cache_def is_model_in_cache_def)
  with body assms(1) have "save_model D blob model_id s = (Inr (Failure (StrOf IntegrityError)), s2)"
    by (simp add: save_model_def)
  with s2(2,3) show ?thesis by blast
qed

lemma save_model_repairs_cache_run:
  "\<not> is_model_in_cache ''m1'' (restart (snd (save_model test_codec [0, 7] ''m1'' empty_node)))
   \<and> reliable (restart (snd (save_model test_codec [0, 7] ''m1'' empty_node)))
   \<and> map_of (torch_models (restart (snd (save_model test_codec [0, 7] ''m1'' empty_node)))) ''m1'' =
       Some [0, 7]
   \<and> test_codec [0, 7] = Some (Module [7])
   \<and> fst (save_model test_codec [1, 9] ''m1''
        (restart (snd (save_model test_codec [0, 7] ''m1'' empty_node)))) =
       Inr (Failure (StrOf IntegrityError))
   \<and> model_cache (snd (save_model test_codec [1, 9] ''m1''
        (restart (snd (save_model test_codec [0, 7] ''m1'' empty_node))))) ''m1'' =
       Some (ModelObj (Module [7]))"
  using save_model_repairs_cache
    [of "''m1''" "restart (snd (save_model test_codec [0, 7] ''m1'' empty_node))" "[0, 7]"
        test_codec "Module [7]" "[1, 9]"]
  by (auto simp: save_after_restart) (simp_all add: save_model_empty_node, simp_all add: run_defs)

section \<open>Reading a saved model back from the cache\<close>

text \<open>
  Claim C3. After \<open>save_model\<close> has returned a success result for \<open>blob\<close> and an id,
  \<open>get_model_with_id\<close> for that id returns a success result whose model is what
  \<open>blob\<close> deserializes to, and makes no request of the database: the state, with its
  record of requests, is unchanged.
\<close>

theorem save_model_then_get:
  assumes "save_model D blob model_id s = (Inr r, s1)" and "success r"
  shows "\<exists>m. deserialize D (Bytes blob) = Inr m
           \<and> get_model_with_id D model_id s1 = (Inr (Success_model m), s1)
           \<and> db_calls (snd (get_model_with_id D model_id s1)) = db_calls s1"
proof -
  from save_model_success [OF assms] obtain m where
    m: "D blob = Some m" "model_cache s1 model_id = Some (ModelObj m)" by blast
  from m(2) have "get_model_with_id D model_id s1 = (Inr (Success_model (ModelObj m)), s1)"
    by (rule get_model_with_id_cached)
  with m(1) show ?thesis by simp
qed

theorem save_model_then_get_witness:
  "fst (save_model test_codec [0, 7] ''m1'' empty_node) =
     Inr (Success_message ''Model saved with id: m1'')
   \<and> deserialize test_codec (Bytes [0, 7]) = Inr (ModelObj (Module [7]))
   \<and> fst (get_model_with_id test_codec ''m1'' (snd (save_model test_codec [0, 7] ''m1'' empty_node))) =
       Inr (Success_model (ModelObj (Module [7])))
   \<and> db_calls (snd (get_model_with_id test_codec ''m1''
         (snd (save_model test_codec [0, 7] ''m1'' empty_node)))) = [Add_TorchModel ''m1'']"
  using save_model_then_get [OF save_model_empty_node]
  by (auto simp: test_codec_def save_model_empty_node)

section \<open>Loading a Plan that is not cached\<close>

text \<open>
  Claim C4. Let the id miss the cache, let its row hold bytes that deserialize to a Plan,
  let every state id of the Plan have a row in the tensor table (the state tensors were
  persisted), and let the database serve its requests. Then \<open>get_model_with_id\<close> returns
  the Plan as a success result, and in the state it returns with, every state id is
  registered in the Object Store with the tensor of its row, the database was asked for the
  model and then for each state id in turn, and the Plan is in the cache.
\<close>

theorem get_model_with_id_rehydrates:
  assumes "\<not> is_model_in_cache model_id s"
    and "map_of (torch_models s) model_id = Some blob"
    and "D blob = Some (Plan sids p)"
    and "\<forall>sid\<in>set sids. map_of (torch_tensors s) sid \<noteq> None"
    and "reliable s"
  shows "\<exists>s'. get_model_with_id D model_id s = (Inr (Success_model (ModelObj (Plan sids p))), s')
           \<and> (\<forall>sid\<in>set sids. objects s' sid = map_of (torch_tensors s) sid \<and> objects s' sid \<noteq> None)
           \<and> db_calls s' = db_calls s @ Get_TorchModel model_id # map Get_TorchTensor sids
           \<and> model_cache s' model_id = Some (ModelObj (Plan sids p))"
proof -
  let ?s1 = "logged (Get_TorchModel model_id) s"
  have "\<forall>sid\<in>set sids. map_of (torch_tensors ?s1) sid \<noteq> None" and "reliable ?s1"
    using assms(4,5) by simp_all
  from retrieve_states_found [OF this] obtain s2 where s2:
    "retrieve_states sids ?s1 = (Inr (), s2)"
    "model_cache s2 = model_cache ?s1"
    "db_calls s2 = db_calls ?s1 @ map Get_TorchTensor sids"
    "objects s2 = (\<lambda>k. if k \<in> set sids then map_of (torch_tensors ?s1) k else objects ?s1 k)"
    by blast
  let ?s3 = "s2\<lparr>model_cache := (model_cache s2)(model_id \<mapsto> ModelObj (Plan sids p))\<rparr>"
  have miss: "model_cache s2 model_id = None"
    using assms(1) s2(2) by (simp add: is_model_in_cache_def)
  have "get_model_with_id D model_id s = (Inr (Success_model (ModelObj (Plan sids p))), ?s3)"
    using assms(1-3,5) s2(1) miss
    by (simp add: get_model_with_id_def get_model_from_db_def get_TorchModel_def
        save_model_to_cache_def is_model_in_cache_def except_SQLAlchemyError_def)
  moreover have "\<forall>sid\<in>set sids. objects ?s3 sid = map_of (torch_tensors s) sid \<and> objects ?s3 sid \<noteq> None"
    using s2(4) assms(4) by simp
  moreover have "db_calls ?s3 = db_calls s @ Get_TorchModel model_id # map Get_TorchTensor sids"
    using s2(3) by simp
  moreover have "model_cache ?s3 model_id = Some (ModelObj (Plan sids p))" by simp
  ultimately show ?thesis by blast
qed

theorem get_model_with_id_rehydrates_witness:
  "\<not> is_model_in_cache ''m1'' (restart (snd (save_model test_codec [1, 7] ''m1'' tensor_node)))
   \<and> reliable (restart (snd (save_model test_codec [1, 7] ''m1'' tensor_node)))
   \<and> objects (restart (snd (save_model test_codec [1, 7] ''m1'' tensor_node))) ''t1'' = None
   \<and> fst (get_model_with_id test_codec ''m1'' (restart (snd (save_model test_codec [1, 7] ''m1'' tensor_node)))) =
       Inr (Success_model (ModelObj (Plan [''t1'', ''t2''] [7])))
   \<and> objects (snd (get_model_with_id test_codec ''m1''
         (restart (snd (save_model test_codec [1, 7] ''m1'' tensor_node))))) ''t1'' = Some [1]
   \<and> objects (snd (get_model_with_id test_codec ''m1''
         (restart (snd (save_model test_codec [1, 7] ''m1'' tensor_node))))) ''t2'' = Some [2]
   \<and> model_cache (snd (get_model_with_id test_codec ''m1''
         (restart (snd (save_model test_codec [1, 7] ''m1'' tensor_node))))) ''m1'' =
       Some (ModelObj (Plan [''t1'', ''t2''] [7]))"
  using get_model_with_id_rehydrates
    [of "''m1''" "restart (snd (save_model test_codec [1, 7] ''m1'' tensor_node))" "[1, 7]"
        test_codec "[''t1'', ''t2'']" "[7]"]
  by (auto simp: save_plan_tensor_node restart_def clear_cache_def is_model_in_cache_def
      test_codec_def reliable_def)

section \<open>Exceptions that leave the model manager\<close>

text \<open>
  Claim C5 against the code. \<open>save_model\<close> on bytes that do not deserialize raises the
  codec's exception, and so does \<open>get_model_with_id\<close> for that id after a restart;
  \<open>save_model\<close> on a Plan whose state tensors are not in the Object Store raises, and
  \<open>get_model_with_id\<close> for that id after a restart, when the Plan's state tensors have no
  rows, raises \<^verbatim>\<open>AttributeError\<close>. None of the four returns a result dictionary.
\<close>

theorem model_manager_raises:
  "fst (save_model test_codec [9] ''m1'' empty_node) = Inl SerdeError
   \<and> fst (get_model_with_id test_codec ''m1''
        (restart (snd (save_model test_codec [9] ''m1'' empty_node)))) = Inl SerdeError
   \<and> fst (save_model test_codec [1, 7] ''m2'' empty_node) = Inl AttributeError
   \<and> fst (get_model_with_id test_codec ''m2''
        (restart (snd (save_model test_codec [1, 7] ''m2'' empty_node)))) = Inl AttributeError"
  by (simp add: save_bad_blob save_plan_without_objects) (simp add: run_defs)

section \<open>Deleting a model\<close>

text \<open>
  Claim C6. \<open>delete_model\<close> removes the id from the cache, whether or not the id was
  cached and whether or not the deletion in the database succeeds: afterwards the cache is
  the old one without the id. When \<open>delete_model\<close> returns a success result,
  \<open>get_model_with_id\<close> for the id returns a failure result, which is
  \<^verbatim>\<open>Model not found\<close> when the database serves the query and the text of the database's
  error otherwise; and \<open>list_models\<close> returns a result, a success when the database serves
  the query, whose ids do not contain the id.
\<close>

theorem delete_model_complete:
  "model_cache (snd (delete_model model_id s)) = (model_cache s)(model_id := None)
   \<and> (\<forall>r s1. delete_model model_id s = (Inr r, s1) \<and> success r \<longrightarrow>
         get_model_with_id D model_id s1 =
           (Inr (Failure (if unserved (Get_TorchModel model_id) s1 then StrOf OperationalError
                          else Str ''Model not found'')),
            logged (Get_TorchModel model_id) s1)
         \<and> (\<exists>res s2. list_models s1 = (Inr res, s2)
               \<and> (unserved All_TorchModel_ids s1 \<or> success res)
               \<and> (\<forall>ids. res = Success_models ids \<longrightarrow> model_id \<notin> set ids)))"
proof (intro conjI allI impI)
  show "model_cache (snd (delete_model model_id s)) = (model_cache s)(model_id := None)"
    by (rule delete_model_cache)
next
  fix r s1 assume a: "delete_model model_id s = (Inr r, s1) \<and> success r"
  then have gone: "model_cache s1 model_id = None" "model_id \<notin> fst ` set (torch_models s1)"
    by (auto dest: delete_model_success)
  then show "get_model_with_id D model_id s1 =
      (Inr (Failure (if unserved (Get_TorchModel model_id) s1 then StrOf OperationalError
                     else Str ''Model not found'')),
       logged (Get_TorchModel model_id) s1)"
    by (rule get_model_with_id_absent)
  show "\<exists>res s2. list_models s1 = (Inr res, s2)
               \<and> (unserved All_TorchModel_ids s1 \<or> success res)
               \<and> (\<forall>ids. res = Success_models ids \<longrightarrow> model_id \<notin> set ids)"
    using gone(2) by (simp add: list_models_eq)
qed

theorem delete_model_complete_witness:
  "fst (delete_model ''m1'' (snd (save_model test_codec [0, 7] ''m1'' empty_node))) =
     Inr (Success_message ''Model Deleted: m1'')
   \<and> fst (get_model_with_id test_codec ''m1''
        (snd (delete_model ''m1'' (snd (save_model test_codec [0, 7] ''m1'' empty_node))))) =
     Inr (Failure (Str ''Model not found''))
   \<and> fst (list_models
        (snd (delete_model ''m1'' (snd (save_model test_codec [0, 7] ''m1'' empty_node))))) =
     Inr (Success_models [])
   \<and> fst (delete_model ''m1'' (empty_node\<lparr>model_cache := [''m1'' \<mapsto> ModelObj (Module [7])]\<rparr>)) =
     Inr (Failure (StrOf UnmappedInstanceError))
   \<and> model_cache (snd (delete_model ''m1''
        (empty_node\<lparr>model_cache := [''m1'' \<mapsto> ModelObj (Module [7])]\<rparr>))) ''m1'' = None"
  using delete_model_complete
    [of "''m1''" "snd (save_model test_codec [0, 7] ''m1'' empty_node)" test_codec]
    delete_model_complete
    [of "''m1''" "empty_node\<lparr>model_cache := [''m1'' \<mapsto> ModelObj (Module [7])]\<rparr>" test_codec]
  by (auto simp: delete_after_save list_models_eq unserved_def) (simp add: run_defs)

section \<open>The relay answers every command\<close>

text \<open>
  Claim C7. \<open>cmd\<close> returns without raising, whatever the collaborators and the message
  are. Whenever the body of its \<^verbatim>\<open>try\<close> raises an exception \<open>e\<close>, \<open>cmd\<close> emits
  \<^verbatim>\<open>str(e)\<close> as \<^verbatim>\<open>/cmd-response\<close> from the state the body had reached; this is so when
  the cold check raises, when the sliced message does not hex-decode, when the worker raises
  on the decoded command, and when the snapshot raises.
\<close>

theorem cmd_never_raises:
  "fst (cmd C message r) = Inr ()
   \<and> (\<forall>e r1. cmd_try C message r = (Inl e, r1) \<longrightarrow>
         snd (cmd C message r) = emit ''/cmd-response'' (StrOf e) r1)
   \<and> (\<forall>e r1. cold_check C r = (Inl e, r1) \<longrightarrow>
         snd (cmd C message r) = emit ''/cmd-response'' (StrOf e) r1)
   \<and> (\<forall>r1 m e. cold_check C r = (Inr (), r1) \<and> message ''message'' = Some m
         \<and> unhexlify (butlast (drop 2 m)) = Inl e \<longrightarrow>
         snd (cmd C message r) = emit ''/cmd-response'' (StrOf e) r1)
   \<and> (\<forall>r1 m bs e r2. cold_check C r = (Inr (), r1) \<and> message ''message'' = Some m
         \<and> unhexlify (butlast (drop 2 m)) = Inr bs \<and> call_recv_msg C bs r1 = (Inl e, r2) \<longrightarrow>
         snd (cmd C message r) = emit ''/cmd-response'' (StrOf e) r2)
   \<and> (\<forall>r1 m bs resp r2 e r3. cold_check C r = (Inr (), r1) \<and> message ''message'' = Some m
         \<and> unhexlify (butlast (drop 2 m)) = Inr bs \<and> call_recv_msg C bs r1 = (Inr resp, r2)
         \<and> call_snapshot C r2 = (Inl e, r3) \<longrightarrow>
         snd (cmd C message r) = emit ''/cmd-response'' (StrOf e) r3)"
proof (intro conjI allI impI)
  show "fst (cmd C message r) = Inr ()"
    by (cases "cmd_try C message r") (auto simp: cmd_def split: sum.splits)
qed (auto simp: cmd_raised cmd_try_cold_check_raises cmd_try_decode_raises
      cmd_try_recv_msg_raises cmd_try_snapshot_raises)

theorem cmd_never_raises_witness:
  "cold_check echo_engine \<lparr>worker = [''a''], events = []\<rparr> = (Inr (), \<lparr>worker = [''a''], events = []\<rparr>)
   \<and> unhexlify (butlast (drop 2 (str_of_hex ''zz''))) =
       Inl (BinasciiError ''Non-hexadecimal digit found'')
   \<and> cmd echo_engine [''message'' \<mapsto> str_of_hex ''zz''] \<lparr>worker = [''a''], events = []\<rparr> =
       (Inr (), emit ''/cmd-response'' (StrOf (BinasciiError ''Non-hexadecimal digit found''))
                  \<lparr>worker = [''a''], events = []\<rparr>)
   \<and> fst (cmd (faulty_engine 0) [''message'' \<mapsto> str_of_hex ''6869''] \<lparr>worker = [], events = []\<rparr>) = Inr ()
   \<and> events (snd (cmd (faulty_engine 0) [''message'' \<mapsto> str_of_hex ''6869''] \<lparr>worker = [], events = []\<rparr>)) =
       [Recover_objects, Emit ''/cmd-response'' (StrOf (Raised ''no snapshot''))]
   \<and> events (snd (cmd (faulty_engine 1) [''message'' \<mapsto> str_of_hex ''6869''] \<lparr>worker = [''a''], events = []\<rparr>)) =
       [Recv_msg [0x68, 0x69], Emit ''/cmd-response'' (StrOf (Raised ''bad command''))]
   \<and> events (snd (cmd (faulty_engine 2) [''message'' \<mapsto> str_of_hex ''6869''] \<lparr>worker = [''a''], events = []\<rparr>)) =
       [Recv_msg [0x68, 0x69], Snapshot, Emit ''/cmd-response'' (StrOf (Raised ''disk full''))]"
  using cmd_never_raises
    [of echo_engine "[''message'' \<mapsto> str_of_hex ''zz'']" "\<lparr>worker = [''a''], events = []\<rparr>"]
  by (simp add: cmd_not_hex_warm cmd_recovery_raises cmd_worker_raises cmd_snapshot_raises)
     (simp add: relay_defs)

section \<open>Recovery on a cold Object Store\<close>

text \<open>
  Claim C8. What \<open>cmd\<close> adds to the record of calls starts with one call of
  \<^verbatim>\<open>recover_objects\<close> when the worker holds no objects at the start and with none
  otherwise, and no further call of \<^verbatim>\<open>recover_objects\<close> follows: recovery is called once,
  before the message is decoded and handed to the worker, exactly when the Object Store is
  empty.
\<close>

theorem cmd_recovers_once_when_cold:
  "\<exists>rest. events (snd (cmd C message r)) =
            events r @ (if length (current_objects C (worker r)) = 0 then [Recover_objects] else []) @ rest
        \<and> Recover_objects \<notin> set rest"
proof -
  obtain res1 r1 where c: "cold_check C r = (res1, r1)" by fastforce
  have e1: "events r1 = events r @ (if length (current_objects C (worker r)) = 0 then [Recover_objects] else [])"
    using cold_check_events [OF c] by simp
  have "\<exists>rest. events (snd (cmd C message r)) = events r1 @ rest \<and> Recover_objects \<notin> set rest"
    using c
    by (auto simp: cmd_def cmd_try_def emit_def Let_def
        split: sum.splits prod.splits option.splits
        dest!: call_recv_msg_events call_snapshot_events)
  then show ?thesis using e1 by auto
qed

theorem cmd_recovers_once_when_cold_witness:
  "current_objects echo_engine (worker \<lparr>worker = [], events = []\<rparr>) = []
   \<and> events (snd (cmd echo_engine [''message'' \<mapsto> str_of_hex ''6869''] \<lparr>worker = [], events = []\<rparr>)) =
       [Recover_objects, Recv_msg [0x68, 0x69], Snapshot,
        Emit ''/cmd-response'' (Str (str_of_hex ''6869''))]
   \<and> current_objects echo_engine (worker \<lparr>worker = [''a''], events = []\<rparr>) = [''a'']
   \<and> events (snd (cmd echo_engine [''message'' \<mapsto> ''''] \<lparr>worker = [''a''], events = []\<rparr>)) =
       [Recv_msg [], Snapshot, Emit ''/cmd-response'' (Str [CHR ''b'', CHR 0x27, CHR 0x27])]"
  using cmd_recovers_once_when_cold
    [of echo_engine "[''message'' \<mapsto> str_of_hex ''6869'']" "\<lparr>worker = [], events = []\<rparr>"]
  by (simp add: cmd_framed_cold cmd_empty_unframed) (simp add: relay_defs)

section \<open>A Plan whose state tensors cannot be persisted\<close>

text \<open>
  Claim C9 against the code. The Object Store holds \<^verbatim>\<open>t1\<close> and not \<^verbatim>\<open>t2\<close>, and the
  bytes deserialize to a Plan over both. The model row is written, and persisting the state
  tensors then fails at the lookup of \<^verbatim>\<open>t2\<close> in \<open>save_states_in_db\<close>, with an
  exception that is no \<^verbatim>\<open>SQLAlchemyError\<close>. \<open>save_model\<close> raises it instead of returning
  a failure result; the model row stays in the table and the Plan stays in the cache.
\<close>

theorem save_model_raises_when_state_missing:
  "\<not> is_model_in_cache ''m1'' (tensor_node\<lparr>objects := [''t1'' \<mapsto> [1]]\<rparr>)
   \<and> fst (save_model_in_db [1, 7] ''m1'' (tensor_node\<lparr>objects := [''t1'' \<mapsto> [1]]\<rparr>)) = Inr ()
   \<and> test_codec [1, 7] = Some (Plan [''t1'', ''t2''] [7])
   \<and> get_obj ''t2'' (tensor_node\<lparr>objects := [''t1'' \<mapsto> [1]]\<rparr>) = None
   \<and> fst (save_states_in_db (ModelObj (Plan [''t1'', ''t2''] [7]))
        (snd (save_model_in_db [1, 7] ''m1'' (tensor_node\<lparr>objects := [''t1'' \<mapsto> [1]]\<rparr>)))) =
       Inl AttributeError
   \<and> fst (save_model test_codec [1, 7] ''m1'' (tensor_node\<lparr>objects := [''t1'' \<mapsto> [1]]\<rparr>)) =
       Inl AttributeError
   \<and> map_of (torch_models (snd (save_model test_codec [1, 7] ''m1''
        (tensor_node\<lparr>objects := [''t1'' \<mapsto> [1]]\<rparr>)))) ''m1'' = Some [1, 7]
   \<and> model_cache (snd (save_model test_codec [1, 7] ''m1''
        (tensor_node\<lparr>objects := [''t1'' \<mapsto> [1]]\<rparr>))) ''m1'' =
       Some (ModelObj (Plan [''t1'', ''t2''] [7]))"
  by (simp add: save_plan_missing_tensor) (simp add: run_defs)

text \<open>
  Where persisting the state tensors fails with an exception \<open>e\<close> of the SQLAlchemy
  hierarchy (a state id that is taken or repeated, or a request that the database fails to
  serve), after the model row was written leaving the state \<open>s1\<close>, \<open>save_model\<close>
  returns the failure result with \<^verbatim>\<open>str(e)\<close>, the model row is in the table, the Plan is
  in the cache, and no tensor row was written.
\<close>

lemma save_model_keeps_model_when_states_fail:
  assumes "\<not> is_model_in_cache model_id s"
    and "save_model_in_db blob model_id s = (Inr (), s1)"
    and "D blob = Some (Plan sids p)"
    and "fst (save_states_in_db (ModelObj (Plan sids p)) s1) = Inl e"
    and "is_SQLAlchemyError e"
  shows "\<exists>s'. save_model D blob model_id s = (Inr (Failure (StrOf e)), s')
           \<and> map_of (torch_models s') model_id = Some blob
           \<and> model_cache s' model_id = Some (ModelObj (Plan sids p))
           \<and> torch_tensors s' = torch_tensors s"
proof -
  let ?plan = "ModelObj (Plan sids p)"
  let ?s2 = "s1\<lparr>model_cache := (model_cache s1)(model_id \<mapsto> ?plan)\<rparr>"
  note w = save_model_in_db_written [OF assms(2)]
  obtain res s3 where s3: "save_states_in_db ?plan ?s2 = (res, s3)" by fastforce
  have "fst (save_states_in_db ?plan ?s2) = fst (save_states_in_db ?plan s1)"
    by (rule save_states_in_db_cache_update)
  with s3 assms(4) have res: "res = Inl e" by simp
  have keeps: "model_cache s3 = model_cache ?s2" "torch_models s3 = torch_models ?s2"
    using save_states_in_db_keeps [OF s3] by simp_all
  have tens: "torch_tensors s3 = torch_tensors s"
    using s3 res save_states_in_db_tensors_on_error [of ?plan ?s2 e s3] w(3) by simp
  have miss: "model_cache s1 model_id = None"
    using assms(1) w(2) by (simp add: is_model_in_cache_def)
  have body: "save_model_try D blob model_id s = (Inl e, s3)"
    using assms(2,3) s3 res miss
    by (simp add: save_model_try_def save_model_to_cache_def is_model_in_cache_def)
  have cached: "model_cache s3 model_id = Some ?plan" using keeps(1) by simp
  have handler: "save_model_except D model_id e s3 = (Inr (Failure (StrOf e)), s3)"
    using cached
    by (simp add: save_model_except_def get_model_with_id_cached save_model_to_cache_def
        is_model_in_cache_def)
  have "save_model D blob model_id s = (Inr (Failure (StrOf e)), s3)"
    using assms(1,5) body handler by (simp add: save_model_def)
  moreover have "map_of (torch_models s3) model_id = Some blob"
    using keeps(2) w(1) by simp
  ultimately show ?thesis using cached tens by blast
qed

lemma save_model_keeps_model_when_states_fail_run:
  "\<not> is_model_in_cache ''m1'' (tensor_node\<lparr>torch_tensors := [(''t2'', [5])]\<rparr>)
   \<and> fst (save_model_in_db [1, 7] ''m1'' (tensor_node\<lparr>torch_tensors := [(''t2'', [5])]\<rparr>)) = Inr ()
   \<and> fst (save_states_in_db (ModelObj (Plan [''t1'', ''t2''] [7]))
        (snd (save_model_in_db [1, 7] ''m1'' (tensor_node\<lparr>torch_tensors := [(''t2'', [5])]\<rparr>)))) =
       Inl IntegrityError
   \<and> fst (save_model test_codec [1, 7] ''m1'' (tensor_node\<lparr>torch_tensors := [(''t2'', [5])]\<rparr>)) =
       Inr (Failure (StrOf IntegrityError))
   \<and> map_of (torch_models (snd (save_model test_codec [1, 7] ''m1''
        (tensor_node\<lparr>torch_tensors := [(''t2'', [5])]\<rparr>)))) ''m1'' = Some [1, 7]
   \<and> model_cache (snd (save_model test_codec [1, 7] ''m1''
        (tensor_node\<lparr>torch_tensors := [(''t2'', [5])]\<rparr>))) ''m1'' =
       Some (ModelObj (Plan [''t1'', ''t2''] [7]))
   \<and> fst (save_states_in_db (ModelObj (Plan [''t1'', ''t2''] [7]))
        (snd (save_model_in_db [1, 7] ''m1'' (failing_after 1 tensor_node)))) = Inl OperationalError
   \<and> fst (save_model test_codec [1, 7] ''m1'' (failing_after 1 tensor_node)) =
       Inr (Failure (StrOf OperationalError))
   \<and> map_of (torch_models (snd (save_model test_codec [1, 7] ''m1'' (failing_after 1 tensor_node))))
        ''m1'' = Some [1, 7]"
  using save_model_keeps_model_when_states_fail
    [of "''m1''" "tensor_node\<lparr>torch_tensors := [(''t2'', [5])]\<rparr>" "[1, 7]"
        "snd (save_model_in_db [1, 7] ''m1'' (tensor_node\<lparr>torch_tensors := [(''t2'', [5])]\<rparr>))"
        test_codec "[''t1'', ''t2'']" "[7]" IntegrityError]
  by (auto simp: save_plan_taken_tensor save_plan_outage) (simp_all add: run_defs)

section \<open>The framing of a command\<close>

text \<open>
  Claim C10, amended. For a message string \<open>m\<close>, once the cold check has passed, the
  bytes handed to the worker are the hex-decoding of \<open>m\<close> without its first two
  characters and its last one, and when the worker and the snapshot return, the response
  emitted is \<^verbatim>\<open>b'\<close>, the hexadecimal digits of the response bytes, \<^verbatim>\<open>'\<close>. That slice
  undoes exactly this framing: a framed string of digits is cut back to the digits, and the
  framed hexadecimal form of any bytes decodes to those bytes. A message that is not empty
  and is itself well-formed hexadecimal is never decoded to the bytes it encodes.
\<close>

theorem cmd_decodes_framed_hex:
  "(\<forall>r1 bs. cold_check C r = (Inr (), r1) \<and> message ''message'' = Some m
        \<and> unhexlify (butlast (drop 2 m)) = Inr bs \<longrightarrow>
        (\<exists>rest. events (snd (cmd C message r)) = events r1 @ Recv_msg bs # rest))
   \<and> (\<forall>r1 bs resp r2 r3. cold_check C r = (Inr (), r1) \<and> message ''message'' = Some m
        \<and> unhexlify (butlast (drop 2 m)) = Inr bs \<and> call_recv_msg C bs r1 = (Inr resp, r2)
        \<and> call_snapshot C r2 = (Inr (), r3) \<longrightarrow>
        cmd C message r =
          (Inr (), emit ''/cmd-response'' (Str ([CHR ''b'', CHR 0x27] @ hexlify resp @ [CHR 0x27])) r3))
   \<and> butlast (drop 2 ([CHR ''b'', CHR 0x27] @ h @ [CHR 0x27])) = h
   \<and> unhexlify (butlast (drop 2 ([CHR ''b'', CHR 0x27] @ hexlify payload @ [CHR 0x27]))) = Inr payload
   \<and> (\<forall>bs. m \<noteq> [] \<and> unhexlify m = Inr bs \<longrightarrow> unhexlify (butlast (drop 2 m)) \<noteq> Inr bs)"
proof (intro conjI allI impI)
  fix r1 bs
  assume a: "cold_check C r = (Inr (), r1) \<and> message ''message'' = Some m
        \<and> unhexlify (butlast (drop 2 m)) = Inr bs"
  obtain res r2 where r2: "call_recv_msg C bs r1 = (res, r2)" by fastforce
  then have e2: "events r2 = events r1 @ [Recv_msg bs]" by (rule call_recv_msg_events)
  obtain res3 r3 where r3: "call_snapshot C r2 = (res3, r3)" by fastforce
  then have e3: "events r3 = events r2 @ [Snapshot]" by (rule call_snapshot_events)
  show "\<exists>rest. events (snd (cmd C message r)) = events r1 @ Recv_msg bs # rest"
    using a r2 e2 r3 e3
    by (auto simp: cmd_def cmd_try_def emit_def split: sum.splits)
next
  fix r1 bs resp r2 r3
  assume "cold_check C r = (Inr (), r1) \<and> message ''message'' = Some m
        \<and> unhexlify (butlast (drop 2 m)) = Inr bs \<and> call_recv_msg C bs r1 = (Inr resp, r2)
        \<and> call_snapshot C r2 = (Inr (), r3)"
  then have "cmd_try C message r =
      (Inr (), emit ''/cmd-response'' (Str (str_of_hex (hexlify resp))) r3)"
    by (auto intro: cmd_try_responds)
  then show "cmd C message r =
      (Inr (), emit ''/cmd-response'' (Str ([CHR ''b'', CHR 0x27] @ hexlify resp @ [CHR 0x27])) r3)"
    by (simp add: cmd_def str_of_hex_def)
next
  show "butlast (drop 2 ([CHR ''b'', CHR 0x27] @ h @ [CHR 0x27])) = h"
    using slice_of_framed [of h] by (simp add: str_of_hex_def)
next
  show "unhexlify (butlast (drop 2 ([CHR ''b'', CHR 0x27] @ hexlify payload @ [CHR 0x27]))) = Inr payload"
    using slice_of_framed [of "hexlify payload"] by (simp add: str_of_hex_def unhexlify_hexlify)
next
  fix bs assume "m \<noteq> [] \<and> unhexlify m = Inr bs"
  then show "unhexlify (butlast (drop 2 m)) \<noteq> Inr bs"
    by (auto dest: unframed_not_decoded)
qed

theorem cmd_decodes_framed_hex_witness:
  "cold_check echo_engine \<lparr>worker = [''a''], events = []\<rparr> = (Inr (), \<lparr>worker = [''a''], events = []\<rparr>)
   \<and> unhexlify (butlast (drop 2 (str_of_hex ''6869''))) = Inr [0x68, 0x69]
   \<and> cmd echo_engine [''message'' \<mapsto> str_of_hex ''6869''] \<lparr>worker = [''a''], events = []\<rparr> =
       (Inr (),
        \<lparr>worker = [''a''],
         events = [Recv_msg [0x68, 0x69], Snapshot,
                   Emit ''/cmd-response'' (Str (str_of_hex ''6869''))]\<rparr>)
   \<and> ''6869'' \<noteq> []
   \<and> unhexlify ''6869'' = Inr [0x68, 0x69]
   \<and> unhexlify (butlast (drop 2 ''6869'')) = Inl (BinasciiError ''Odd-length string'')"
  using cmd_decodes_framed_hex
    [of echo_engine "\<lparr>worker = [''a''], events = []\<rparr>" "[''message'' \<mapsto> str_of_hex ''6869'']"
        "str_of_hex ''6869''" "''6869''" "[0x68, 0x69]"]
  by (simp add: relay_defs)

text \<open>
  Claim C10 as stated fails on the empty message, which is well-formed hexadecimal and is
  not framed: its slice is empty too, so the worker is handed the empty bytes that the
  message encodes.
\<close>

theorem cmd_unframed_hex_counterexample:
  "unhexlify '''' = Inr []
   \<and> unhexlify (butlast (drop 2 '''')) = Inr []
   \<and> cmd echo_engine [''message'' \<mapsto> ''''] \<lparr>worker = [''a''], events = []\<rparr> =
       (Inr (),
        \<lparr>worker = [''a''],
         events = [Recv_msg [], Snapshot, Emit ''/cmd-response'' (Str [CHR ''b'', CHR 0x27, CHR 0x27])]\<rparr>)"
  by (simp add: relay_defs)

end
